theory Spec2Isabelle
  imports Main
begin

section \<open>Data model of the tab/session store (ConnectionTabsService)\<close>

text \<open>
  The service is defined twice in the sources, with nearly the same text: once in
  \<^verbatim>\<open>src/unnamed/part_000\<close> (called the first variant below) and once in
  \<^verbatim>\<open>src/src/pages/console/sidebar/db-connection-header.tsx\<close>, lines 189-414 (the second
  variant). Definitions of the second variant carry the suffix \<open>2\<close>; where the two
  bodies are the same up to TypeScript casts, one definition stands for both.

  \<open>DbSchema\<close>, \<open>ConnectionConfig\<close> and the row type \<open>Record<string, any>\<close> are opaque
  to the service: they are the type parameters \<open>'s\<close>, \<open>'c\<close> and \<open>'r\<close>.
\<close>

datatype MessageType = Error | Info | Success | Warning

datatype ContentComponent = QueryTab | TableStructureTab

record 'r QueryContentTabData =
  query :: string
  results :: "'r list"

record 'r TableStructureContentTabData =
  table :: string
  "structure" :: "'r list"
  indices :: "'r list"
  foreignKeys :: "'r list"
  triggers :: "'r list"

text \<open>
  \<open>ContentTabData[C]\<close>: the \<open>data\<close> field holds one of the two shapes. In JavaScript
  \<open>key\<close> and \<open>data\<close> are independent fields of the object, and they are so here.
\<close>

datatype 'r ContentTabData =
    QueryData "'r QueryContentTabData"
  | TableStructureData "'r TableStructureContentTabData"

record tab_message =
  message :: string
  msg_type :: MessageType

record 'r ContentTab =
  label :: string
  key :: ContentComponent
  data :: "'r ContentTabData"
  error :: "tab_message option"

record ('s, 'c) ConnectionTab =
  tab_label :: string
  tab_id :: string
  schema :: 's
  connection :: 'c

text \<open>
  \<open>ConnectionStore\<close> and \<open>ContentStore\<close> have the same shape \<open>{tabs, idx}\<close>. The cursor
  is a JavaScript \<open>number\<close> that the service only ever sets to an array length or to 0:
  it is an \<open>int\<close> here.
\<close>

record 'a tab_store =
  tabs :: "'a list"
  idx :: int

type_synonym ('s, 'c) ConnectionStore = "('s, 'c) ConnectionTab tab_store"
type_synonym 'r ContentStore = "'r ContentTab tab_store"

definition NEW_QUERY_TAB :: "'r ContentTab" where
  "NEW_QUERY_TAB =
     \<lparr>label = ''Query'',
      key = QueryTab,
      data = QueryData \<lparr>query = [], results = []\<rparr>,
      error = None\<rparr>"

text \<open>
  \<open>newContentTab\<close> of the second variant. Its \<open>default: throw\<close> branch needs a key
  outside \<open>ContentComponentKeys\<close>, which the parameter type excludes.
\<close>

fun newContentTab :: "string \<Rightarrow> ContentComponent \<Rightarrow> 'r ContentTab" where
  "newContentTab l QueryTab =
     \<lparr>label = l, key = QueryTab,
      data = QueryData \<lparr>query = [], results = []\<rparr>, error = None\<rparr>"
| "newContentTab l TableStructureTab =
     \<lparr>label = l, key = TableStructureTab,
      data = TableStructureData
        \<lparr>table = [], structure = [], indices = [], foreignKeys = [], triggers = []\<rparr>,
      error = None\<rparr>"

definition CONNECTIONS_TABS_KEY :: string where
  "CONNECTIONS_TABS_KEY = ''_conn_tabs''"

definition CONTENT_TABS_KEY :: string where
  "CONTENT_TABS_KEY = ''_content_tabs''"

section \<open>The external blob store and the debounced write\<close>

text \<open>
  \<open>new Store(".connections.dat")\<close> of tauri-plugin-store-api: a string-keyed store whose
  values here are JSON texts. \<open>get\<close> gives \<open>null\<close> (\<open>None\<close>) for a missing key, \<open>set\<close>
  stores a value, \<open>save\<close> persists; \<open>saves\<close> counts the calls of \<open>save\<close>.
\<close>

record blob_store =
  entries :: "string \<rightharpoonup> string"
  saves :: nat

definition store_get :: "blob_store \<Rightarrow> string \<Rightarrow> string option" where
  "store_get st k = entries st k"

definition store_set :: "string \<Rightarrow> string \<Rightarrow> blob_store \<Rightarrow> blob_store" where
  "store_set k v st = st\<lparr>entries := (entries st)(k \<mapsto> v)\<rparr>"

definition store_save :: "blob_store \<Rightarrow> blob_store" where
  "store_save st = st\<lparr>saves := Suc (saves st)\<rparr>"

definition store_clear :: "blob_store \<Rightarrow> blob_store" where
  "store_clear st = st\<lparr>entries := Map.empty\<rparr>"

text \<open>
  The state of one service instance: the two reactive stores, the blob store, and the
  timer of the debounced \<open>updateStore\<close>. \<open>wait\<close> is the delay given to \<open>debounce\<close>
  (3000 in the first variant, 1000 in the second); \<open>timer\<close> is \<open>Some r\<close> when an
  invocation is pending and fires after \<open>r\<close> more milliseconds.
\<close>

record ('s, 'c, 'r) service =
  connectionStore :: "('s, 'c) ConnectionStore"
  contentStore :: "'r ContentStore"
  store :: blob_store
  wait :: nat
  timer :: "nat option"

text \<open>
  What \<open>getSavedData\<close> returns is typed \<open>any\<close>: it is the parsed value, which the caller
  annotates with the store type, or the default value, and the default value of the
  parameter is the empty array \<open>[]\<close>. A blob is written by \<open>updateStore\<close> only, so a text
  that parses is taken to parse to a store (\<open>Typed\<close>) or to \<open>[]\<close>.
\<close>

datatype 'a unknown = EmptyArray | Typed 'a

datatype js_error = TypeError

text \<open>
  \<open>JSON.stringify\<close> and \<open>JSON.parse\<close> on the two stores: parameters of the model.
  \<open>parse_conn t = None\<close> is \<open>JSON.parse\<close> throwing on the text \<open>t\<close>.
\<close>

record ('s, 'c, 'r) json =
  stringify_conn :: "('s, 'c) ConnectionStore \<Rightarrow> string"
  stringify_content :: "'r ContentStore \<Rightarrow> string"
  parse_conn :: "string \<Rightarrow> ('s, 'c) ConnectionStore unknown option"
  parse_content :: "string \<Rightarrow> 'r ContentStore unknown option"

text \<open>
  The body given to \<open>debounce\<close>: two \<open>store.set\<close> calls, each serialising the store as it
  is when the body runs, then \<open>store.save\<close>. The three awaits are taken as one step: no
  operation of the service runs between them.
\<close>

definition write_stores ::
  "('s, 'c, 'r) json \<Rightarrow> ('s, 'c, 'r) service \<Rightarrow> ('s, 'c, 'r) service" where
  "write_stores js s =
     s\<lparr>store :=
         store_save
           (store_set CONTENT_TABS_KEY (stringify_content js (contentStore s))
             (store_set CONNECTIONS_TABS_KEY (stringify_conn js (connectionStore s))
               (store s)))\<rparr>"

text \<open>
  Modelled from the spec: \<open>debounce\<close> of \<open>utils/utils\<close>, which is not among the sources.
  The spec (sections 4.1 and 5): a call schedules the write after a quiet period; a call
  arriving while one is pending reschedules the timer, the pending invocation being
  superseded and not run twice; the write serialises the state current at fire time.
  \<open>updateStore\<close> is a call of the debounced function: it sets the timer to the delay,
  whether or not an invocation was pending.
\<close>

definition updateStore :: "('s, 'c, 'r) service \<Rightarrow> ('s, 'c, 'r) service" where
  "updateStore s = s\<lparr>timer := Some (wait s)\<rparr>"

text \<open>
  Modelled from the spec: the passing of time for the timer of \<open>debounce\<close>. When the
  pending invocation is due within the \<open>d\<close> milliseconds, the timer is cleared and the
  write body runs on the state as it is then; otherwise the remaining time shrinks.
\<close>

definition elapse ::
  "('s, 'c, 'r) json \<Rightarrow> nat \<Rightarrow> ('s, 'c, 'r) service \<Rightarrow> ('s, 'c, 'r) service" where
  "elapse js d s =
     (case timer s of
        None \<Rightarrow> s
      | Some r \<Rightarrow>
          if r \<le> d then write_stores js (s\<lparr>timer := None\<rparr>)
          else s\<lparr>timer := Some (r - d)\<rparr>)"

section \<open>Operations of the service\<close>

text \<open>
  \<open>xs[i]\<close> in JavaScript: \<open>undefined\<close> (\<open>None\<close>) when \<open>i\<close> is not an index of \<open>xs\<close>,
  in particular for \<open>i = -1\<close>.
\<close>

definition js_index :: "'a list \<Rightarrow> int \<Rightarrow> 'a option" where
  "js_index xs i = (if 0 \<le> i \<and> i < int (length xs) then Some (xs ! nat i) else None)"

text \<open>\<open>xs.map((t, i) => i === k ? f(t) : t)\<close>, the shape of the three content updates.\<close>

definition map_at :: "int \<Rightarrow> ('a \<Rightarrow> 'a) \<Rightarrow> 'a list \<Rightarrow> 'a list" where
  "map_at k f xs = map (\<lambda>(t, i). if int i = k then f t else t) (zip xs [0..<length xs])"

definition addTab ::
  "('s, 'c) ConnectionTab \<Rightarrow> ('s, 'c, 'r) service \<Rightarrow> ('s, 'c, 'r) service" where
  "addTab tab s =
     (if find (\<lambda>t. tab_id t = tab_id tab) (tabs (connectionStore s)) \<noteq> None then s
      else
        let s1 = s\<lparr>connectionStore :=
                    (connectionStore s)\<lparr>tabs := tabs (connectionStore s) @ [tab]\<rparr>\<rparr>;
            s2 = s1\<lparr>contentStore := (contentStore s1)\<lparr>tabs := [NEW_QUERY_TAB]\<rparr>\<rparr>;
            i = int (length (tabs (connectionStore s2)));
            s3 = s2\<lparr>connectionStore := (connectionStore s2)\<lparr>idx := i\<rparr>\<rparr>
        in updateStore s3)"

definition addTab2 ::
  "('s, 'c) ConnectionTab \<Rightarrow> ('s, 'c, 'r) service \<Rightarrow> ('s, 'c, 'r) service" where
  "addTab2 tab s =
     (if find (\<lambda>t. tab_id t = tab_id tab) (tabs (connectionStore s)) \<noteq> None then s
      else
        let s1 = s\<lparr>connectionStore :=
                    (connectionStore s)\<lparr>tabs := tabs (connectionStore s) @ [tab]\<rparr>\<rparr>;
            s2 = s1\<lparr>contentStore :=
                    (contentStore s1)\<lparr>tabs := [newContentTab ''Query'' QueryTab]\<rparr>\<rparr>;
            i = int (length (tabs (connectionStore s2)));
            s3 = s2\<lparr>connectionStore := (connectionStore s2)\<lparr>idx := i\<rparr>\<rparr>
        in updateStore s3)"

definition removeTab :: "string \<Rightarrow> ('s, 'c, 'r) service \<Rightarrow> ('s, 'c, 'r) service" where
  "removeTab i s =
     (let s1 = s\<lparr>connectionStore :=
                   (connectionStore s)
                     \<lparr>tabs := filter (\<lambda>t. tab_id t \<noteq> i) (tabs (connectionStore s))\<rparr>\<rparr>;
          s2 = s1\<lparr>connectionStore := (connectionStore s1)\<lparr>idx := 0\<rparr>\<rparr>
      in updateStore s2)"

definition clearStore :: "('s, 'c, 'r) service \<Rightarrow> ('s, 'c, 'r) service" where
  "clearStore s = s\<lparr>store := store_clear (store s)\<rparr>"

definition getActiveConnection ::
  "('s, 'c, 'r) service \<Rightarrow> ('s, 'c) ConnectionTab option" where
  "getActiveConnection s =
     js_index (tabs (connectionStore s)) (idx (connectionStore s) - 1)"

definition getActiveContentTab :: "('s, 'c, 'r) service \<Rightarrow> 'r ContentTab option" where
  "getActiveContentTab s = js_index (tabs (contentStore s)) (idx (contentStore s))"

definition setActiveContentQueryTabData ::
  "'r QueryContentTabData \<Rightarrow> ('s, 'c, 'r) service \<Rightarrow> ('s, 'c, 'r) service" where
  "setActiveContentQueryTabData d s =
     (case getActiveContentTab s of
        None \<Rightarrow> s
      | Some tab \<Rightarrow>
          s\<lparr>contentStore :=
              (contentStore s)
                \<lparr>tabs := map_at (idx (contentStore s)) (\<lambda>t. t\<lparr>data := QueryData d\<rparr>)
                           (tabs (contentStore s))\<rparr>\<rparr>)"

definition setActiveContentQueryTabData2 ::
  "'r QueryContentTabData \<Rightarrow> ('s, 'c, 'r) service \<Rightarrow> ('s, 'c, 'r) service" where
  "setActiveContentQueryTabData2 d s =
     (case getActiveContentTab s of
        None \<Rightarrow> s
      | Some tab \<Rightarrow>
          s\<lparr>contentStore :=
              (contentStore s)
                \<lparr>tabs := map_at (idx (contentStore s))
                           (\<lambda>t. t\<lparr>data := QueryData d, key := QueryTab\<rparr>)
                           (tabs (contentStore s))\<rparr>\<rparr>)"

definition resetActiveContentQueryTabMessage ::
  "('s, 'c, 'r) service \<Rightarrow> ('s, 'c, 'r) service" where
  "resetActiveContentQueryTabMessage s =
     (case getActiveContentTab s of
        None \<Rightarrow> s
      | Some tab \<Rightarrow>
          s\<lparr>contentStore :=
              (contentStore s)
                \<lparr>tabs := map_at (idx (contentStore s)) (\<lambda>t. t\<lparr>error := None\<rparr>)
                           (tabs (contentStore s))\<rparr>\<rparr>)"

definition setActiveContentQueryTabMessage ::
  "MessageType \<Rightarrow> string \<Rightarrow> ('s, 'c, 'r) service \<Rightarrow> ('s, 'c, 'r) service" where
  "setActiveContentQueryTabMessage ty m s =
     (case getActiveContentTab s of
        None \<Rightarrow> s
      | Some tab \<Rightarrow>
          s\<lparr>contentStore :=
              (contentStore s)
                \<lparr>tabs := map_at (idx (contentStore s))
                           (\<lambda>t. t\<lparr>error := Some \<lparr>message = m, msg_type = ty\<rparr>\<rparr>)
                           (tabs (contentStore s))\<rparr>\<rparr>)"

section \<open>Hydration\<close>

text \<open>
  \<open>getSavedData(key, defaultValue = [])\<close>: \<open>!str\<close> holds for \<open>null\<close> and for the empty
  string; a text on which \<open>JSON.parse\<close> throws gives the default value too.
\<close>

definition getSavedData ::
  "(string \<Rightarrow> 'a option) \<Rightarrow> blob_store \<Rightarrow> string \<Rightarrow> 'a \<Rightarrow> 'a" where
  "getSavedData parse st k defaultValue =
     (case store_get st k of
        None \<Rightarrow> defaultValue
      | Some str \<Rightarrow>
          if str = [] then defaultValue
          else (case parse str of None \<Rightarrow> defaultValue | Some res \<Rightarrow> res))"

text \<open>
  The external call \<open>invoke("init_connection", {config})\<close> is a parameter: given the
  configuration and the state \<open>'w\<close> of the backend, it succeeds or fails and leaves a
  new backend state. \<open>restore_step\<close> is the callback given to \<open>reduce\<close>: it awaits the
  accumulator first, then the call, and keeps the tab when the call did not throw.
\<close>

type_synonym ('c, 'w) invoke = "'c \<Rightarrow> 'w \<Rightarrow> bool \<times> 'w"

definition restore_step ::
  "('c, 'w) invoke \<Rightarrow> ('s, 'c) ConnectionTab list \<times> 'w \<Rightarrow> ('s, 'c) ConnectionTab
     \<Rightarrow> ('s, 'c) ConnectionTab list \<times> 'w" where
  "restore_step init_connection acc conn =
     (case acc of (res, w) \<Rightarrow>
        (case init_connection (connection conn) w of
           (True, w') \<Rightarrow> (res @ [conn], w')
         | (False, w') \<Rightarrow> (res, w')))"

text \<open>
  The callback of \<open>onMount\<close>. \<open>getSavedData\<close> is called without a default value, so the
  default is \<open>[]\<close>; on \<open>[]\<close> the property \<open>tabs\<close> is \<open>undefined\<close> and calling \<open>reduce\<close> on
  it throws a TypeError, which rejects the promise of the async callback. The setters of
  a Solid store merge the own keys of the value they are given into the store: a value
  with \<open>tabs\<close> and \<open>idx\<close> replaces both, and \<open>[]\<close> has no key to merge.
\<close>

definition onMount ::
  "('s, 'c, 'r) json \<Rightarrow> ('c, 'w) invoke \<Rightarrow> ('s, 'c, 'r) service \<Rightarrow> 'w
     \<Rightarrow> js_error + ('s, 'c, 'r) service \<times> 'w" where
  "onMount js init_connection s w =
     (case getSavedData (parse_conn js) (store s) CONNECTIONS_TABS_KEY EmptyArray of
        EmptyArray \<Rightarrow> Inl TypeError
      | Typed conn_tabs \<Rightarrow>
          (case foldl (restore_step init_connection) ([], w) (tabs conn_tabs) of
             (tabs', w') \<Rightarrow>
               let s1 = s\<lparr>connectionStore := conn_tabs\<lparr>tabs := tabs'\<rparr>\<rparr>
               in (case getSavedData (parse_content js) (store s) CONTENT_TABS_KEY EmptyArray of
                     EmptyArray \<Rightarrow> Inr (s1, w')
                   | Typed content \<Rightarrow> Inr (s1\<lparr>contentStore := content\<rparr>, w'))))"

text \<open>The state a service instance starts in, for each variant.\<close>

definition ConnectionTabsService :: "blob_store \<Rightarrow> ('s, 'c, 'r) service" where
  "ConnectionTabsService st =
     \<lparr>connectionStore = \<lparr>tabs = [], idx = 0\<rparr>,
      contentStore = \<lparr>tabs = [], idx = 0\<rparr>,
      store = st, wait = 3000, timer = None\<rparr>"

definition ConnectionTabsService2 :: "blob_store \<Rightarrow> ('s, 'c, 'r) service" where
  "ConnectionTabsService2 st =
     \<lparr>connectionStore = \<lparr>tabs = [], idx = 0\<rparr>,
      contentStore = \<lparr>tabs = [], idx = 0\<rparr>,
      store = st, wait = 1000, timer = None\<rparr>"

section \<open>Notions used in the statements\<close>

text \<open>
  The bound on the content cursor (spec, section 3): whenever \<open>contentStore.tabs\<close> is
  non-empty, \<open>contentStore.idx\<close> lies within \<open>[0, len(tabs))\<close>.
\<close>

definition content_idx_ok :: "('s, 'c, 'r) service \<Rightarrow> bool" where
  "content_idx_ok s =
     (tabs (contentStore s) = [] \<or>
      (0 \<le> idx (contentStore s) \<and> idx (contentStore s) < int (length (tabs (contentStore s)))))"

text \<open>
  The outcomes of \<open>init_connection\<close> called on each configuration of a list in turn, each
  call starting in the backend state that the call before it left, with the backend
  state after the last call.
\<close>

fun run_calls :: "('c, 'w) invoke \<Rightarrow> 'c list \<Rightarrow> 'w \<Rightarrow> bool list \<times> 'w" where
  "run_calls init_connection [] w = ([], w)"
| "run_calls init_connection (c # cs) w =
     (case init_connection c w of
        (ok, w') \<Rightarrow>
          (case run_calls init_connection cs w' of (oks, w'') \<Rightarrow> (ok # oks, w'')))"

text \<open>
  A burst of calls of \<open>addTab\<close> and \<open>removeTab\<close>, each after a gap of some milliseconds.
  A call is \<open>mutating\<close> in a state when it reaches \<open>updateStore()\<close> there: every
  \<open>removeTab\<close>, and an \<open>addTab\<close> whose id the store does not hold. \<open>in_window\<close> says that
  every call of the burst is mutating and arrives less than \<open>wait\<close> milliseconds after
  the one before it.
\<close>

datatype ('s, 'c) call = AddTab "('s, 'c) ConnectionTab" | RemoveTab string

fun apply_call :: "('s, 'c) call \<Rightarrow> ('s, 'c, 'r) service \<Rightarrow> ('s, 'c, 'r) service" where
  "apply_call (AddTab tab) s = addTab tab s"
| "apply_call (RemoveTab i) s = removeTab i s"

fun mutating :: "('s, 'c) call \<Rightarrow> ('s, 'c, 'r) service \<Rightarrow> bool" where
  "mutating (AddTab tab) s = (find (\<lambda>t. tab_id t = tab_id tab) (tabs (connectionStore s)) = None)"
| "mutating (RemoveTab i) s = True"

fun burst ::
  "('s, 'c, 'r) json \<Rightarrow> (nat \<times> ('s, 'c) call) list \<Rightarrow> ('s, 'c, 'r) service
     \<Rightarrow> ('s, 'c, 'r) service" where
  "burst js [] s = s"
| "burst js ((d, c) # cs) s = burst js cs (apply_call c (elapse js d s))"

fun in_window ::
  "('s, 'c, 'r) json \<Rightarrow> (nat \<times> ('s, 'c) call) list \<Rightarrow> ('s, 'c, 'r) service \<Rightarrow> bool" where
  "in_window js [] s = True"
| "in_window js ((d, c) # cs) s =
     (d < wait s \<and> mutating c (elapse js d s) \<and>
      in_window js cs (apply_call c (elapse js d s)))"

text \<open>The calls of a burst alone, with no time passing.\<close>

fun apply_calls :: "('s, 'c) call list \<Rightarrow> ('s, 'c, 'r) service \<Rightarrow> ('s, 'c, 'r) service" where
  "apply_calls [] s = s"
| "apply_calls (c # cs) s = apply_calls cs (apply_call c s)"

section \<open>Concrete values\<close>

definition tab_a :: "(unit, nat) ConnectionTab" where
  "tab_a = \<lparr>tab_label = ''alpha'', tab_id = ''a'', schema = (), connection = 1\<rparr>"

definition tab_b :: "(unit, nat) ConnectionTab" where
  "tab_b = \<lparr>tab_label = ''beta'', tab_id = ''b'', schema = (), connection = 2\<rparr>"

definition tab_c :: "(unit, nat) ConnectionTab" where
  "tab_c = \<lparr>tab_label = ''gamma'', tab_id = ''c'', schema = (), connection = 3\<rparr>"

definition empty_blobs :: blob_store where
  "empty_blobs = \<lparr>entries = Map.empty, saves = 0\<rparr>"

text \<open>A fresh service of the first variant, on a blob store with no entry.\<close>

definition fresh :: "(unit, nat, unit) service" where
  "fresh = ConnectionTabsService empty_blobs"

text \<open>A structure tab for a table \<open>users\<close>, and a content store whose active tab it is.\<close>

definition structure_tab :: "unit ContentTab" where
  "structure_tab =
     \<lparr>label = ''users'', key = TableStructureTab,
      data = TableStructureData
        \<lparr>table = ''users'', structure = [], indices = [], foreignKeys = [], triggers = []\<rparr>,
      error = Some \<lparr>message = ''done'', msg_type = Success\<rparr>\<rparr>"

definition two_content_tabs :: "(unit, nat, unit) service" where
  "two_content_tabs = fresh\<lparr>contentStore := \<lparr>tabs = [NEW_QUERY_TAB, structure_tab], idx = 1\<rparr>\<rparr>"

text \<open>The same two content tabs with the cursor on the first, a query tab.\<close>

definition query_tab_active :: "(unit, nat, unit) service" where
  "query_tab_active = fresh\<lparr>contentStore := \<lparr>tabs = [NEW_QUERY_TAB, structure_tab], idx = 0\<rparr>\<rparr>"

text \<open>
  A backend that refuses the configuration 2 and counts the calls it received, and a
  JSON codec that writes a connection store as the ids of its tabs and a content store
  as the labels of its tabs, and reads back one text for each store.
\<close>

definition refuse_2 :: "(nat, nat) invoke" where
  "refuse_2 c w = (c \<noteq> 2, Suc w)"

definition codec :: "(unit, nat, unit) json" where
  "codec =
     \<lparr>stringify_conn = (\<lambda>cs. concat (map tab_id (tabs cs))),
      stringify_content = (\<lambda>cs. concat (map label (tabs cs))),
      parse_conn =
        (\<lambda>t. if t = ''abc'' then Some (Typed \<lparr>tabs = [tab_a, tab_b, tab_c], idx = 3\<rparr>)
             else None),
      parse_content =
        (\<lambda>t. if t = ''Query'' then Some (Typed \<lparr>tabs = [NEW_QUERY_TAB], idx = 0\<rparr>)
             else None)\<rparr>"

text \<open>
  A service starting on the blobs that a session with the three tabs left, and one
  starting on a connection blob that does not parse.
\<close>

definition saved_blobs :: blob_store where
  "saved_blobs =
     \<lparr>entries = [CONNECTIONS_TABS_KEY \<mapsto> ''abc'', CONTENT_TABS_KEY \<mapsto> ''Query''],
      saves = 1\<rparr>"

definition broken_blobs :: blob_store where
  "broken_blobs =
     \<lparr>entries = [CONNECTIONS_TABS_KEY \<mapsto> ''{'', CONTENT_TABS_KEY \<mapsto> ''Query''],
      saves = 1\<rparr>"

definition restart :: "(unit, nat, unit) service" where
  "restart = ConnectionTabsService saved_blobs"

definition restart_broken :: "(unit, nat, unit) service" where
  "restart_broken = ConnectionTabsService broken_blobs"

text \<open>Three calls, the second 500 ms and the third 2999 ms after the one before.\<close>

definition three_calls :: "(nat \<times> (unit, nat) call) list" where
  "three_calls = [(0, AddTab tab_a), (500, AddTab tab_b), (2999, RemoveTab ''a'')]"

section \<open>Basic facts about the operations\<close>

lemma addTab2_eq: "addTab2 tab s = addTab tab s"
  by (simp add: addTab2_def addTab_def NEW_QUERY_TAB_def)

lemma find_id_None:
  "(find (\<lambda>t. tab_id t = i) xs = None) = (\<forall>t \<in> set xs. tab_id t \<noteq> i)"
  by (auto simp: find_None_iff)

lemma addTab_present:
  "\<exists>t \<in> set (tabs (connectionStore s)). tab_id t = tab_id tab \<Longrightarrow> addTab tab s = s"
  by (auto simp: addTab_def find_id_None)

lemma addTab_absent:
  "\<forall>t \<in> set (tabs (connectionStore s)). tab_id t \<noteq> tab_id tab \<Longrightarrow>
   addTab tab s =
     s\<lparr>connectionStore :=
         \<lparr>tabs = tabs (connectionStore s) @ [tab],
          idx = int (length (tabs (connectionStore s))) + 1\<rparr>,
       contentStore := (contentStore s)\<lparr>tabs := [NEW_QUERY_TAB]\<rparr>,
       timer := Some (wait s)\<rparr>"
  by (simp add: addTab_def find_id_None updateStore_def Let_def)

lemma js_index_last: "js_index (xs @ [x]) (int (length xs)) = Some x"
  by (simp add: js_index_def)

lemma map_at_update:
  assumes "0 \<le> k" "k < int (length xs)"
  shows "map_at k f xs = xs[nat k := f (xs ! nat k)]"
proof (rule nth_equalityI)
  show "length (map_at k f xs) = length (xs[nat k := f (xs ! nat k)])"
    by (simp add: map_at_def)
next
  fix i assume "i < length (map_at k f xs)"
  then have i: "i < length xs" by (simp add: map_at_def)
  show "map_at k f xs ! i = xs[nat k := f (xs ! nat k)] ! i"
  proof (cases "int i = k")
    case True
    then show ?thesis using i by (auto simp: map_at_def)
  next
    case False
    then have "i \<noteq> nat k" using assms by auto
    then show ?thesis using i False by (simp add: map_at_def)
  qed
qed

lemma getActiveContentTab_Some:
  "getActiveContentTab s = Some tab \<Longrightarrow>
   0 \<le> idx (contentStore s) \<and> idx (contentStore s) < int (length (tabs (contentStore s))) \<and>
   tab = tabs (contentStore s) ! nat (idx (contentStore s))"
  by (auto simp: getActiveContentTab_def js_index_def split: if_splits)

lemma getActiveContentTab_None:
  "(getActiveContentTab s = None) =
     (\<not> (0 \<le> idx (contentStore s) \<and>
         idx (contentStore s) < int (length (tabs (contentStore s)))))"
  by (simp add: getActiveContentTab_def js_index_def)

lemmas concrete_defs =
  fresh_def ConnectionTabsService_def empty_blobs_def tab_a_def tab_b_def tab_c_def
  two_content_tabs_def query_tab_active_def structure_tab_def NEW_QUERY_TAB_def

section \<open>The content update of the active tab\<close>

text \<open>
  Claim C2. \<open>setActiveContentQueryTabData\<close> is an update of query tabs: the spec rules
  out applying it while a structure tab is active. When there is an active content tab,
  the first variant replaces the tab at \<open>contentStore.idx\<close> by itself with the new
  \<open>data\<close> field, so that \<open>label\<close>, \<open>key\<close> and \<open>error\<close> of that tab are kept, every tab
  at another index is unchanged, and nothing else in the service changes. When the
  active tab is a query tab, the second variant computes the same state.
\<close>

theorem setActiveContentQueryTabData_frame:
  assumes "getActiveContentTab s = Some tab"
  shows "setActiveContentQueryTabData d s =
           s\<lparr>contentStore := (contentStore s)
               \<lparr>tabs := (tabs (contentStore s))
                  [nat (idx (contentStore s)) := tab\<lparr>data := QueryData d\<rparr>]\<rparr>\<rparr> \<and>
         length (tabs (contentStore (setActiveContentQueryTabData d s))) =
           length (tabs (contentStore s)) \<and>
         data (tabs (contentStore (setActiveContentQueryTabData d s))
                 ! nat (idx (contentStore s))) = QueryData d \<and>
         label (tabs (contentStore (setActiveContentQueryTabData d s))
                 ! nat (idx (contentStore s))) = label tab \<and>
         key (tabs (contentStore (setActiveContentQueryTabData d s))
                 ! nat (idx (contentStore s))) = key tab \<and>
         error (tabs (contentStore (setActiveContentQueryTabData d s))
                 ! nat (idx (contentStore s))) = error tab \<and>
         (\<forall>j < length (tabs (contentStore s)). j \<noteq> nat (idx (contentStore s)) \<longrightarrow>
            tabs (contentStore (setActiveContentQueryTabData d s)) ! j =
              tabs (contentStore s) ! j) \<and>
         (key tab = QueryTab \<longrightarrow>
            setActiveContentQueryTabData2 d s = setActiveContentQueryTabData d s)"
proof -
  from getActiveContentTab_Some [OF assms]
  have r: "0 \<le> idx (contentStore s)" "idx (contentStore s) < int (length (tabs (contentStore s)))"
    and t: "tabs (contentStore s) ! nat (idx (contentStore s)) = tab" by auto
  from r have k: "nat (idx (contentStore s)) < length (tabs (contentStore s))" by simp
  have A: "setActiveContentQueryTabData d s =
           s\<lparr>contentStore := (contentStore s)
               \<lparr>tabs := (tabs (contentStore s))
                  [nat (idx (contentStore s)) := tab\<lparr>data := QueryData d\<rparr>]\<rparr>\<rparr>"
    using assms by (simp add: setActiveContentQueryTabData_def map_at_update [OF r] t)
  have B: "setActiveContentQueryTabData2 d s =
           s\<lparr>contentStore := (contentStore s)
               \<lparr>tabs := (tabs (contentStore s))
                  [nat (idx (contentStore s)) :=
                     tab\<lparr>data := QueryData d, key := QueryTab\<rparr>]\<rparr>\<rparr>"
    using assms by (simp add: setActiveContentQueryTabData2_def map_at_update [OF r] t)
  have C: "setActiveContentQueryTabData2 d s = setActiveContentQueryTabData d s"
    if q: "key tab = QueryTab"
  proof -
    have "tab\<lparr>data := QueryData d, key := QueryTab\<rparr> = tab\<lparr>data := QueryData d\<rparr>"
      using q by (cases tab) simp
    then show ?thesis using A B by simp
  qed
  have T: "tabs (contentStore (setActiveContentQueryTabData d s)) =
             (tabs (contentStore s))[nat (idx (contentStore s)) := tab\<lparr>data := QueryData d\<rparr>]"
    by (simp add: A)
  have L: "length (tabs (contentStore (setActiveContentQueryTabData d s))) =
             length (tabs (contentStore s))"
    by (simp add: T)
  have N: "tabs (contentStore (setActiveContentQueryTabData d s)) ! nat (idx (contentStore s)) =
             tab\<lparr>data := QueryData d\<rparr>"
    using k by (simp add: T)
  have F: "data (tabs (contentStore (setActiveContentQueryTabData d s))
                 ! nat (idx (contentStore s))) = QueryData d"
    "label (tabs (contentStore (setActiveContentQueryTabData d s))
                 ! nat (idx (contentStore s))) = label tab"
    "key (tabs (contentStore (setActiveContentQueryTabData d s))
                 ! nat (idx (contentStore s))) = key tab"
    "error (tabs (contentStore (setActiveContentQueryTabData d s))
                 ! nat (idx (contentStore s))) = error tab"
    by (simp_all add: N)
  have O: "\<forall>j < length (tabs (contentStore s)). j \<noteq> nat (idx (contentStore s)) \<longrightarrow>
            tabs (contentStore (setActiveContentQueryTabData d s)) ! j =
              tabs (contentStore s) ! j"
    by (simp add: T)
  from A L F O C show ?thesis by blast
qed

text \<open>
  The theorem at the state with a query tab and a structure tab, the cursor on the query
  tab: both variants put the new data into the query tab and leave the structure tab.
\<close>

theorem setActiveContentQueryTabData_frame_witness:
  "getActiveContentTab query_tab_active = Some NEW_QUERY_TAB \<and>
   key (NEW_QUERY_TAB :: unit ContentTab) = QueryTab \<and>
   tabs (contentStore (setActiveContentQueryTabData \<lparr>query = ''select 1'', results = []\<rparr>
     query_tab_active)) =
     [NEW_QUERY_TAB\<lparr>data := QueryData \<lparr>query = ''select 1'', results = []\<rparr>\<rparr>,
      structure_tab] \<and>
   setActiveContentQueryTabData2 \<lparr>query = ''select 1'', results = []\<rparr> query_tab_active =
     setActiveContentQueryTabData \<lparr>query = ''select 1'', results = []\<rparr> query_tab_active \<and>
   tabs (contentStore (setActiveContentQueryTabData2 \<lparr>query = ''select 1'', results = []\<rparr>
     query_tab_active)) =
     [NEW_QUERY_TAB\<lparr>data := QueryData \<lparr>query = ''select 1'', results = []\<rparr>\<rparr>,
      structure_tab]"
proof -
  have h1: "getActiveContentTab query_tab_active = Some NEW_QUERY_TAB"
    by (simp add: getActiveContentTab_def js_index_def query_tab_active_def)
  have h2: "key (NEW_QUERY_TAB :: unit ContentTab) = QueryTab"
    by (simp add: NEW_QUERY_TAB_def)
  from setActiveContentQueryTabData_frame [OF h1, of "\<lparr>query = ''select 1'', results = []\<rparr>"]
  have e: "setActiveContentQueryTabData \<lparr>query = ''select 1'', results = []\<rparr> query_tab_active =
      query_tab_active\<lparr>contentStore := (contentStore query_tab_active)
        \<lparr>tabs := (tabs (contentStore query_tab_active))
           [nat (idx (contentStore query_tab_active)) :=
              NEW_QUERY_TAB\<lparr>data := QueryData \<lparr>query = ''select 1'', results = []\<rparr>\<rparr>]\<rparr>\<rparr>"
    and c: "key (NEW_QUERY_TAB :: unit ContentTab) = QueryTab \<longrightarrow>
      setActiveContentQueryTabData2 \<lparr>query = ''select 1'', results = []\<rparr> query_tab_active =
      setActiveContentQueryTabData \<lparr>query = ''select 1'', results = []\<rparr> query_tab_active"
    by blast+
  from e have t: "tabs (contentStore (setActiveContentQueryTabData
      \<lparr>query = ''select 1'', results = []\<rparr> query_tab_active)) =
     [NEW_QUERY_TAB\<lparr>data := QueryData \<lparr>query = ''select 1'', results = []\<rparr>\<rparr>,
      structure_tab]"
    by (simp add: query_tab_active_def)
  from c h2 have v: "setActiveContentQueryTabData2 \<lparr>query = ''select 1'', results = []\<rparr>
      query_tab_active =
      setActiveContentQueryTabData \<lparr>query = ''select 1'', results = []\<rparr> query_tab_active"
    by blast
  from t v have t2: "tabs (contentStore (setActiveContentQueryTabData2
      \<lparr>query = ''select 1'', results = []\<rparr> query_tab_active)) =
     [NEW_QUERY_TAB\<lparr>data := QueryData \<lparr>query = ''select 1'', results = []\<rparr>\<rparr>,
      structure_tab]"
    by simp
  from h1 h2 t v t2 show ?thesis by blast
qed

text \<open>
  Claim C8. When \<open>getActiveContentTab\<close> returns nothing, which is when \<open>contentStore.idx\<close>
  is not an index of \<open>contentStore.tabs\<close>, each of the three updates of the active
  content tab, in either variant, returns the state of the service as it was: both
  stores, the blob store and the timer. The operations have no failing branch.
\<close>

theorem no_active_tab_noop:
  assumes "getActiveContentTab s = None"
  shows "\<not> (0 \<le> idx (contentStore s) \<and>
            idx (contentStore s) < int (length (tabs (contentStore s)))) \<and>
         setActiveContentQueryTabData d s = s \<and>
         setActiveContentQueryTabData2 d s = s \<and>
         setActiveContentQueryTabMessage ty m s = s \<and>
         resetActiveContentQueryTabMessage s = s"
  using assms getActiveContentTab_None [of s]
  by (simp add: setActiveContentQueryTabData_def setActiveContentQueryTabData2_def
      setActiveContentQueryTabMessage_def resetActiveContentQueryTabMessage_def)

text \<open>The theorem at a state with two content tabs and the cursor moved past them.\<close>

theorem no_active_tab_noop_witness:
  "getActiveContentTab (two_content_tabs\<lparr>contentStore := \<lparr>tabs = [NEW_QUERY_TAB, structure_tab], idx = 2\<rparr>\<rparr>) = None \<and>
   setActiveContentQueryTabData \<lparr>query = ''select 1'', results = []\<rparr>
     (two_content_tabs\<lparr>contentStore := \<lparr>tabs = [NEW_QUERY_TAB, structure_tab], idx = 2\<rparr>\<rparr>) =
     two_content_tabs\<lparr>contentStore := \<lparr>tabs = [NEW_QUERY_TAB, structure_tab], idx = 2\<rparr>\<rparr> \<and>
   setActiveContentQueryTabMessage Error ''syntax error''
     (two_content_tabs\<lparr>contentStore := \<lparr>tabs = [NEW_QUERY_TAB, structure_tab], idx = 2\<rparr>\<rparr>) =
     two_content_tabs\<lparr>contentStore := \<lparr>tabs = [NEW_QUERY_TAB, structure_tab], idx = 2\<rparr>\<rparr>"
proof -
  have h: "getActiveContentTab (two_content_tabs\<lparr>contentStore := \<lparr>tabs = [NEW_QUERY_TAB, structure_tab], idx = 2\<rparr>\<rparr>) = None"
    by (simp add: getActiveContentTab_def js_index_def)
  from no_active_tab_noop [OF h] h show ?thesis by blast
qed

section \<open>Adding and removing connection tabs\<close>

text \<open>
  Claim C5. \<open>addTab\<close> is a no-op on a service that already holds a tab with the id of the
  new tab; hence a second \<open>addTab\<close> with the same id, whatever the other fields of its
  tab, changes nothing after the first; and when the store held at most one tab with
  that id before, it holds exactly one after the two calls.
\<close>

theorem addTab_idempotent:
  "((\<exists>t \<in> set (tabs (connectionStore s)). tab_id t = tab_id tab) \<longrightarrow> addTab tab s = s) \<and>
   (tab_id tab' = tab_id tab \<longrightarrow> addTab tab' (addTab tab s) = addTab tab s) \<and>
   (tab_id tab' = tab_id tab \<and>
    length (filter (\<lambda>t. tab_id t = tab_id tab) (tabs (connectionStore s))) \<le> 1 \<longrightarrow>
    length (filter (\<lambda>t. tab_id t = tab_id tab)
      (tabs (connectionStore (addTab tab' (addTab tab s))))) = 1)"
proof (intro conjI impI)
  assume "\<exists>t \<in> set (tabs (connectionStore s)). tab_id t = tab_id tab"
  then show "addTab tab s = s" by (rule addTab_present)
next
  assume same: "tab_id tab' = tab_id tab"
  have "\<exists>t \<in> set (tabs (connectionStore (addTab tab s))). tab_id t = tab_id tab'"
  proof (cases "\<exists>t \<in> set (tabs (connectionStore s)). tab_id t = tab_id tab")
    case True
    then show ?thesis using same by (simp add: addTab_present)
  next
    case False
    then show ?thesis using same by (simp add: addTab_absent)
  qed
  then show "addTab tab' (addTab tab s) = addTab tab s" by (rule addTab_present)
next
  assume a: "tab_id tab' = tab_id tab \<and>
    length (filter (\<lambda>t. tab_id t = tab_id tab) (tabs (connectionStore s))) \<le> 1"
  have twice: "addTab tab' (addTab tab s) = addTab tab s"
  proof -
    have "\<exists>t \<in> set (tabs (connectionStore (addTab tab s))). tab_id t = tab_id tab'"
    proof (cases "\<exists>t \<in> set (tabs (connectionStore s)). tab_id t = tab_id tab")
      case True
      then show ?thesis using a by (simp add: addTab_present)
    next
      case False
      then show ?thesis using a by (simp add: addTab_absent)
    qed
    then show ?thesis by (rule addTab_present)
  qed
  show "length (filter (\<lambda>t. tab_id t = tab_id tab)
      (tabs (connectionStore (addTab tab' (addTab tab s))))) = 1"
  proof (cases "\<exists>t \<in> set (tabs (connectionStore s)). tab_id t = tab_id tab")
    case True
    then have "filter (\<lambda>t. tab_id t = tab_id tab) (tabs (connectionStore s)) \<noteq> []"
      by (auto simp: filter_empty_conv)
    then have one: "length (filter (\<lambda>t. tab_id t = tab_id tab) (tabs (connectionStore s))) = 1"
      using a by (cases "filter (\<lambda>t. tab_id t = tab_id tab) (tabs (connectionStore s))") auto
    have "addTab tab s = s" using True by (rule addTab_present)
    with twice have "addTab tab' (addTab tab s) = s" by simp
    then show ?thesis using one by simp
  next
    case False
    then have none: "filter (\<lambda>t. tab_id t = tab_id tab) (tabs (connectionStore s)) = []"
      by (auto simp: filter_empty_conv)
    have "tabs (connectionStore (addTab tab s)) = tabs (connectionStore s) @ [tab]"
      using False by (simp add: addTab_absent)
    then show ?thesis using none by (simp add: twice)
  qed
qed

text \<open>
  The theorem on a fresh service: \<open>tab_a\<close> added, then a tab with the same id and another
  label added; and \<open>tab_a\<close> added again to the service that holds it.
\<close>

theorem addTab_idempotent_witness:
  "tab_id (tab_a\<lparr>tab_label := ''again''\<rparr>) = tab_id tab_a \<and>
   length (filter (\<lambda>t. tab_id t = tab_id tab_a) (tabs (connectionStore fresh))) \<le> 1 \<and>
   addTab (tab_a\<lparr>tab_label := ''again''\<rparr>) (addTab tab_a fresh) = addTab tab_a fresh \<and>
   length (filter (\<lambda>t. tab_id t = tab_id tab_a)
     (tabs (connectionStore (addTab (tab_a\<lparr>tab_label := ''again''\<rparr>) (addTab tab_a fresh))))) = 1 \<and>
   (\<exists>t \<in> set (tabs (connectionStore (addTab tab_a fresh))). tab_id t = tab_id tab_a) \<and>
   addTab tab_a (addTab tab_a fresh) = addTab tab_a fresh"
proof -
  have h1: "tab_id (tab_a\<lparr>tab_label := ''again''\<rparr>) = tab_id tab_a" by simp
  have h2: "length (filter (\<lambda>t. tab_id t = tab_id tab_a) (tabs (connectionStore fresh))) \<le> 1"
    by (simp add: fresh_def ConnectionTabsService_def)
  have h3: "\<exists>t \<in> set (tabs (connectionStore (addTab tab_a fresh))). tab_id t = tab_id tab_a"
    by (simp add: addTab_def updateStore_def fresh_def ConnectionTabsService_def)
  from addTab_idempotent [of fresh tab_a "tab_a\<lparr>tab_label := ''again''\<rparr>"] h1 h2
  have "addTab (tab_a\<lparr>tab_label := ''again''\<rparr>) (addTab tab_a fresh) = addTab tab_a fresh \<and>
    length (filter (\<lambda>t. tab_id t = tab_id tab_a)
     (tabs (connectionStore (addTab (tab_a\<lparr>tab_label := ''again''\<rparr>) (addTab tab_a fresh))))) = 1"
    by blast
  moreover from addTab_idempotent [of "addTab tab_a fresh" tab_a tab_a] h3
  have "addTab tab_a (addTab tab_a fresh) = addTab tab_a fresh" by blast
  ultimately show ?thesis using h1 h2 h3 by blast
qed

text \<open>
  Claim C6. On a service that holds no tab with the id of \<open>tab\<close>, \<open>addTab\<close> appends \<open>tab\<close>
  to \<open>connectionStore.tabs\<close>, resets \<open>contentStore.tabs\<close> to one fresh query tab with an
  empty query and no results, and sets \<open>connectionStore.idx\<close> to the new length of the
  tabs, so that \<open>getActiveConnection\<close> returns \<open>tab\<close>; on empty tabs the cursor becomes 1.
  The second variant computes the same state.
\<close>

theorem addTab_fresh_appends:
  assumes "\<forall>t \<in> set (tabs (connectionStore s)). tab_id t \<noteq> tab_id tab"
  shows "tabs (connectionStore (addTab tab s)) = tabs (connectionStore s) @ [tab] \<and>
         tabs (contentStore (addTab tab s)) =
           [\<lparr>label = ''Query'', key = QueryTab,
             data = QueryData \<lparr>query = [], results = []\<rparr>, error = None\<rparr>] \<and>
         idx (connectionStore (addTab tab s)) =
           int (length (tabs (connectionStore (addTab tab s)))) \<and>
         getActiveConnection (addTab tab s) = Some tab \<and>
         (tabs (connectionStore s) = [] \<longrightarrow> idx (connectionStore (addTab tab s)) = 1) \<and>
         addTab2 tab s = addTab tab s"
  using assms
  by (simp add: addTab_absent addTab2_eq getActiveConnection_def js_index_last NEW_QUERY_TAB_def)

text \<open>The theorem on a fresh service, which holds no tab at all.\<close>

theorem addTab_fresh_appends_witness:
  "tabs (connectionStore fresh) = [] \<and>
   tabs (connectionStore (addTab tab_a fresh)) = [tab_a] \<and>
   idx (connectionStore (addTab tab_a fresh)) = 1 \<and>
   getActiveConnection (addTab tab_a fresh) = Some tab_a"
proof -
  have h: "\<forall>t \<in> set (tabs (connectionStore fresh)). tab_id t \<noteq> tab_id tab_a"
    by (simp add: fresh_def ConnectionTabsService_def)
  have e: "tabs (connectionStore fresh) = []"
    by (simp add: fresh_def ConnectionTabsService_def)
  from addTab_fresh_appends [OF h] e show ?thesis by simp
qed

text \<open>
  Claim C7. For every id, \<open>removeTab\<close> keeps exactly the tabs with another id, in their
  order, and sets \<open>connectionStore.idx\<close> to 0, after which \<open>getActiveConnection\<close> returns
  nothing.
\<close>

theorem removeTab_resets_cursor:
  "tabs (connectionStore (removeTab i s)) =
     filter (\<lambda>t. tab_id t \<noteq> i) (tabs (connectionStore s)) \<and>
   idx (connectionStore (removeTab i s)) = 0 \<and>
   getActiveConnection (removeTab i s) = None"
  by (simp add: removeTab_def updateStore_def Let_def getActiveConnection_def js_index_def)

section \<open>The bound on the content cursor\<close>

lemma length_map_at: "length (map_at k f xs) = length xs"
  by (simp add: map_at_def)

lemma content_ops_keep_shape:
  "idx (contentStore (setActiveContentQueryTabData d s)) = idx (contentStore s) \<and>
   length (tabs (contentStore (setActiveContentQueryTabData d s))) = length (tabs (contentStore s))"
  "idx (contentStore (setActiveContentQueryTabData2 d s)) = idx (contentStore s) \<and>
   length (tabs (contentStore (setActiveContentQueryTabData2 d s))) = length (tabs (contentStore s))"
  "idx (contentStore (setActiveContentQueryTabMessage ty m s)) = idx (contentStore s) \<and>
   length (tabs (contentStore (setActiveContentQueryTabMessage ty m s))) = length (tabs (contentStore s))"
  "idx (contentStore (resetActiveContentQueryTabMessage s)) = idx (contentStore s) \<and>
   length (tabs (contentStore (resetActiveContentQueryTabMessage s))) = length (tabs (contentStore s))"
  by (simp_all add: setActiveContentQueryTabData_def setActiveContentQueryTabData2_def
      setActiveContentQueryTabMessage_def resetActiveContentQueryTabMessage_def
      length_map_at split: option.split)

lemma content_idx_ok_shape:
  "idx (contentStore s') = idx (contentStore s) \<and>
   length (tabs (contentStore s')) = length (tabs (contentStore s)) \<Longrightarrow>
   content_idx_ok s' = content_idx_ok s"
  by (simp add: content_idx_ok_def flip: length_0_conv)

lemma contentStore_removeTab: "contentStore (removeTab i s) = contentStore s"
  by (simp add: removeTab_def updateStore_def Let_def)

text \<open>
  Claim C3, as amended. \<open>removeTab\<close> and the three updates of the active content tab (in
  either variant) preserve the bound on \<open>contentStore.idx\<close>: they change neither the
  cursor nor the number of content tabs. \<open>addTab\<close> never changes \<open>contentStore.idx\<close>: it
  preserves the bound when the id is already held (it is a no-op then), and when the id
  is new the bound holds afterwards exactly when \<open>contentStore.idx\<close> was 0, the content
  tabs being reset to one tab.
\<close>

theorem content_idx_ok_preserved:
  assumes "content_idx_ok s"
  shows "content_idx_ok (removeTab i s) \<and>
         content_idx_ok (setActiveContentQueryTabData d s) \<and>
         content_idx_ok (setActiveContentQueryTabData2 d s) \<and>
         content_idx_ok (setActiveContentQueryTabMessage ty m s) \<and>
         content_idx_ok (resetActiveContentQueryTabMessage s) \<and>
         idx (contentStore (addTab tab s)) = idx (contentStore s) \<and>
         ((\<exists>t \<in> set (tabs (connectionStore s)). tab_id t = tab_id tab) \<longrightarrow>
            content_idx_ok (addTab tab s)) \<and>
         ((\<forall>t \<in> set (tabs (connectionStore s)). tab_id t \<noteq> tab_id tab) \<longrightarrow>
            content_idx_ok (addTab tab s) = (idx (contentStore s) = 0)) \<and>
         addTab2 tab s = addTab tab s"
proof -
  have 1: "content_idx_ok (removeTab i s)"
    using assms by (simp add: content_idx_ok_def contentStore_removeTab)
  have 2: "content_idx_ok (setActiveContentQueryTabData d s)"
    using assms content_idx_ok_shape [OF content_ops_keep_shape(1) [of d s]] by simp
  have 3: "content_idx_ok (setActiveContentQueryTabData2 d s)"
    using assms content_idx_ok_shape [OF content_ops_keep_shape(2) [of d s]] by simp
  have 4: "content_idx_ok (setActiveContentQueryTabMessage ty m s)"
    using assms content_idx_ok_shape [OF content_ops_keep_shape(3) [of ty m s]] by simp
  have 5: "content_idx_ok (resetActiveContentQueryTabMessage s)"
    using assms content_idx_ok_shape [OF content_ops_keep_shape(4) [of s]] by simp
  have 6: "idx (contentStore (addTab tab s)) = idx (contentStore s)"
    by (cases "\<exists>t \<in> set (tabs (connectionStore s)). tab_id t = tab_id tab")
       (simp_all add: addTab_present addTab_absent)
  have 7: "content_idx_ok (addTab tab s)"
    if "\<exists>t \<in> set (tabs (connectionStore s)). tab_id t = tab_id tab"
    using that assms by (simp add: addTab_present)
  have 8: "content_idx_ok (addTab tab s) = (idx (contentStore s) = 0)"
    if "\<forall>t \<in> set (tabs (connectionStore s)). tab_id t \<noteq> tab_id tab"
    using that by (auto simp: addTab_absent content_idx_ok_def)
  from 1 2 3 4 5 6 7 8 addTab2_eq show ?thesis by blast
qed

text \<open>
  The theorem at the state with two content tabs and the cursor on the second, and at a
  fresh service, where \<open>addTab\<close> is called once with a new id and once more with the id
  then held.
\<close>

theorem content_idx_ok_preserved_witness:
  "content_idx_ok two_content_tabs \<and>
   content_idx_ok (removeTab ''a'' two_content_tabs) \<and>
   content_idx_ok
     (setActiveContentQueryTabData \<lparr>query = ''select 1'', results = []\<rparr> two_content_tabs) \<and>
   content_idx_ok (resetActiveContentQueryTabMessage two_content_tabs) \<and>
   content_idx_ok (addTab tab_a fresh) \<and>
   tabs (connectionStore (addTab tab_a fresh)) = [tab_a] \<and>
   content_idx_ok (addTab tab_a (addTab tab_a fresh)) \<and>
   content_idx_ok fresh \<and> tabs (connectionStore fresh) = [] \<and> idx (contentStore fresh) = 0"
proof -
  have h1: "content_idx_ok two_content_tabs"
    by (simp add: content_idx_ok_def two_content_tabs_def)
  have h2: "content_idx_ok fresh" "tabs (connectionStore fresh) = []" "idx (contentStore fresh) = 0"
    by (simp_all add: content_idx_ok_def fresh_def ConnectionTabsService_def)
  have a: "content_idx_ok (addTab tab_a fresh)"
    using content_idx_ok_preserved [where s = fresh and tab = tab_a, OF h2(1)] h2 by simp
  have t: "tabs (connectionStore (addTab tab_a fresh)) = [tab_a]"
    using h2 by (simp add: addTab_absent)
  have b: "content_idx_ok (addTab tab_a (addTab tab_a fresh))"
    using content_idx_ok_preserved [where s = "addTab tab_a fresh" and tab = tab_a, OF a] t
    by simp
  from content_idx_ok_preserved [where s = two_content_tabs and i = "''a''"
      and d = "\<lparr>query = ''select 1'', results = []\<rparr>", OF h1]
    h1 h2 a t b show ?thesis by blast
qed

text \<open>
  Claim C3 as stated fails for \<open>addTab\<close>: with two content tabs and the cursor on the
  second the bound holds, and after \<open>addTab\<close> of a new connection there is one content tab
  and the cursor is still 1.
\<close>

theorem addTab_breaks_content_idx_ok:
  "content_idx_ok two_content_tabs \<and> \<not> content_idx_ok (addTab tab_a two_content_tabs)"
  by (simp add: content_idx_ok_def addTab_def updateStore_def concrete_defs)

section \<open>Hydration\<close>

lemma foldl_restore_step:
  "foldl (restore_step connect) (acc, w) ts =
     (acc @ map fst (filter snd (zip ts (fst (run_calls connect (map connection ts) w)))),
      snd (run_calls connect (map connection ts) w))"
proof (induction ts arbitrary: acc w)
  case Nil
  then show ?case by simp
next
  case (Cons t ts)
  obtain ok w' where c: "connect (connection t) w = (ok, w')"
    by (cases "connect (connection t) w")
  obtain oks w'' where r: "run_calls connect (map connection ts) w' = (oks, w'')"
    by (cases "run_calls connect (map connection ts) w'")
  show ?case
  proof (cases ok)
    case True
    then show ?thesis using c r Cons.IH [of "acc @ [t]" w'] by (simp add: restore_step_def)
  next
    case False
    then show ?thesis using c r Cons.IH [of acc w'] by (simp add: restore_step_def)
  qed
qed

lemma length_run_calls: "length (fst (run_calls connect cs u)) = length cs"
proof (induction cs arbitrary: u)
  case Nil
  then show ?case by simp
next
  case (Cons c cs)
  obtain ok u' where c: "connect c u = (ok, u')" by (cases "connect c u")
  obtain oks u'' where r: "run_calls connect cs u' = (oks, u'')"
    by (cases "run_calls connect cs u'")
  from Cons.IH [of u'] r have "length oks = length cs" by simp
  then show ?case using c r by simp
qed

lemma getSavedData_default:
  "store_get st k = None \<or> store_get st k = Some [] \<or>
   (\<exists>str. store_get st k = Some str \<and> parse str = None) \<Longrightarrow>
   getSavedData parse st k d = d"
  by (auto simp: getSavedData_def)

lemma onMount_parsed:
  assumes "store_get (store s) CONNECTIONS_TABS_KEY = Some str" "str \<noteq> []"
    "parse_conn js str = Some (Typed saved)"
  shows "\<exists>s'. onMount js connect s w =
           Inr (s', snd (run_calls connect (map connection (tabs saved)) w)) \<and>
         connectionStore s' =
           saved\<lparr>tabs := map fst (filter snd
             (zip (tabs saved) (fst (run_calls connect (map connection (tabs saved)) w))))\<rparr>"
proof -
  have "getSavedData (parse_conn js) (store s) CONNECTIONS_TABS_KEY EmptyArray = Typed saved"
    using assms by (simp add: getSavedData_def)
  then show ?thesis
    by (cases "getSavedData (parse_content js) (store s) CONTENT_TABS_KEY EmptyArray")
       (simp_all add: onMount_def foldl_restore_step Let_def)
qed

text \<open>
  The content half of hydration: when the connection blob parses and the content blob is
  absent, empty or unparsable, hydration returns and leaves \<open>contentStore\<close> as it was.
\<close>

lemma onMount_content_default:
  assumes "store_get (store s) CONNECTIONS_TABS_KEY = Some str" "str \<noteq> []"
    "parse_conn js str = Some (Typed saved)"
    and "store_get (store s) CONTENT_TABS_KEY = None \<or>
         store_get (store s) CONTENT_TABS_KEY = Some [] \<or>
         (\<exists>t. store_get (store s) CONTENT_TABS_KEY = Some t \<and> parse_content js t = None)"
  shows "\<exists>s' w'. onMount js connect s w = Inr (s', w') \<and> contentStore s' = contentStore s"
proof -
  have "getSavedData (parse_conn js) (store s) CONNECTIONS_TABS_KEY EmptyArray = Typed saved"
    using assms(1-3) by (simp add: getSavedData_def)
  moreover have "getSavedData (parse_content js) (store s) CONTENT_TABS_KEY EmptyArray = EmptyArray"
    using assms(4) by (rule getSavedData_default)
  ultimately show ?thesis
    by (simp add: onMount_def Let_def split: prod.split)
qed

lemmas hydration_defs =
  onMount_def getSavedData_def store_get_def restart_def restart_broken_def saved_blobs_def
  broken_blobs_def codec_def CONNECTIONS_TABS_KEY_def CONTENT_TABS_KEY_def restore_step_def
  refuse_2_def

lemma onMount_restart:
  "onMount codec refuse_2 restart 0 =
     Inr (restart\<lparr>connectionStore := \<lparr>tabs = [tab_a, tab_c], idx = 3\<rparr>,
                  contentStore := \<lparr>tabs = [NEW_QUERY_TAB], idx = 0\<rparr>\<rparr>, 3)"
  by (simp add: hydration_defs concrete_defs)

lemma restart_hyps:
  "store_get (store restart) CONNECTIONS_TABS_KEY = Some ''abc''"
  "''abc'' \<noteq> []"
  "parse_conn codec ''abc'' = Some (Typed \<lparr>tabs = [tab_a, tab_b, tab_c], idx = 3\<rparr>)"
  by (simp_all add: hydration_defs ConnectionTabsService_def)

lemma run_calls_refuse_2:
  "run_calls refuse_2 (map connection [tab_a, tab_b, tab_c]) 0 = ([True, False, True], 3)"
  by (simp add: refuse_2_def tab_a_def tab_b_def tab_c_def)

text \<open>
  Claim C1: what the code does where the claim expects the default store. When the
  connection blob is absent, is the empty text, or does not parse, \<open>getSavedData\<close> returns
  its default \<open>[]\<close> and not \<open>{tabs: [], idx: 0}\<close>, and the callback of \<open>onMount\<close> ends with
  a TypeError before it sets a store or reads the content blob.
\<close>

theorem hydration_default_fails:
  assumes "store_get (store s) CONNECTIONS_TABS_KEY = None \<or>
           store_get (store s) CONNECTIONS_TABS_KEY = Some [] \<or>
           (\<exists>str. store_get (store s) CONNECTIONS_TABS_KEY = Some str \<and>
                  parse_conn js str = None)"
  shows "getSavedData (parse_conn js) (store s) CONNECTIONS_TABS_KEY EmptyArray = EmptyArray \<and>
         onMount js connect s w = Inl TypeError"
  using getSavedData_default [OF assms, of EmptyArray]
  by (simp add: onMount_def)

text \<open>
  The theorem on a fresh service, whose blob store has no entry, and on a service whose
  connection blob is the text \<open>{\<close>.
\<close>

theorem hydration_default_fails_witness:
  "store_get (store fresh) CONNECTIONS_TABS_KEY = None \<and>
   onMount codec refuse_2 fresh 0 = Inl TypeError \<and>
   store_get (store restart_broken) CONNECTIONS_TABS_KEY = Some ''{'' \<and>
   parse_conn codec ''{'' = None \<and>
   onMount codec refuse_2 restart_broken 0 = Inl TypeError"
proof -
  have h1: "store_get (store fresh) CONNECTIONS_TABS_KEY = None"
    by (simp add: store_get_def concrete_defs)
  have h2: "store_get (store restart_broken) CONNECTIONS_TABS_KEY = Some ''{''"
    "parse_conn codec ''{'' = None"
    by (simp_all add: hydration_defs ConnectionTabsService_def)
  have a: "onMount codec refuse_2 fresh 0 = Inl TypeError"
    using hydration_default_fails [where s = fresh and js = codec and connect = refuse_2
        and w = 0] h1 by blast
  have b: "onMount codec refuse_2 restart_broken 0 = Inl TypeError"
    using hydration_default_fails [where s = restart_broken and js = codec and connect = refuse_2
        and w = 0] h2 by blast
  from h1 h2 a b show ?thesis by blast
qed

text \<open>
  Claim C4. When the connection blob parses to a saved store, hydration calls
  \<open>init_connection\<close> on the configuration of each saved tab, one call after the other in
  save order (\<open>run_calls\<close>: one outcome per saved tab, each call in the backend state the
  one before left), and ends with the backend in the state after the last call. The
  restored tabs are the saved tabs whose call succeeded, in save order. For three saved
  tabs with the outcomes success, failure, success they are the first and the third.
\<close>

theorem hydration_keeps_connected_tabs:
  assumes "store_get (store s) CONNECTIONS_TABS_KEY = Some str" "str \<noteq> []"
    "parse_conn js str = Some (Typed saved)"
  shows "\<exists>s'. onMount js connect s w =
           Inr (s', snd (run_calls connect (map connection (tabs saved)) w)) \<and>
         length (fst (run_calls connect (map connection (tabs saved)) w)) =
           length (tabs saved) \<and>
         tabs (connectionStore s') =
           map fst (filter snd
             (zip (tabs saved) (fst (run_calls connect (map connection (tabs saved)) w)))) \<and>
         (\<forall>t1 t2 t3. tabs saved = [t1, t2, t3] \<and>
            fst (run_calls connect (map connection (tabs saved)) w) = [True, False, True] \<longrightarrow>
            tabs (connectionStore s') = [t1, t3])"
proof -
  from onMount_parsed [OF assms, of connect w] obtain s' where
    m: "onMount js connect s w =
          Inr (s', snd (run_calls connect (map connection (tabs saved)) w))"
    and c: "connectionStore s' =
           saved\<lparr>tabs := map fst (filter snd
             (zip (tabs saved) (fst (run_calls connect (map connection (tabs saved)) w))))\<rparr>"
    by blast
  define bs where "bs = fst (run_calls connect (map connection (tabs saved)) w)"
  from c have t: "tabs (connectionStore s') = map fst (filter snd (zip (tabs saved) bs))"
    by (simp add: bs_def)
  have q: "tabs (connectionStore s') = [t1, t3]"
    if "tabs saved = [t1, t2, t3] \<and> bs = [True, False, True]" for t1 t2 t3
    using that t by simp
  have l: "length bs = length (tabs saved)"
    by (simp add: bs_def length_run_calls)
  from m l t q show ?thesis unfolding bs_def by blast
qed

text \<open>
  The theorem on the saved session of three tabs, with the backend that refuses the
  second: three calls are made, and the first and the third tab are restored.
\<close>

theorem hydration_keeps_connected_tabs_witness:
  "store_get (store restart) CONNECTIONS_TABS_KEY = Some ''abc'' \<and>
   parse_conn codec ''abc'' = Some (Typed \<lparr>tabs = [tab_a, tab_b, tab_c], idx = 3\<rparr>) \<and>
   fst (run_calls refuse_2 (map connection [tab_a, tab_b, tab_c]) 0) = [True, False, True] \<and>
   (\<exists>s'. onMount codec refuse_2 restart 0 = Inr (s', 3) \<and>
         tabs (connectionStore s') = [tab_a, tab_c])"
proof -
  from hydration_keeps_connected_tabs [OF restart_hyps, of refuse_2 0]
  obtain s' where
    m: "onMount codec refuse_2 restart 0 =
          Inr (s', snd (run_calls refuse_2
            (map connection (tabs \<lparr>tabs = [tab_a, tab_b, tab_c], idx = 3\<rparr>)) 0))"
    and p: "\<forall>t1 t2 t3. tabs \<lparr>tabs = [tab_a, tab_b, tab_c], idx = 3\<rparr> = [t1, t2, t3] \<and>
            fst (run_calls refuse_2
              (map connection (tabs \<lparr>tabs = [tab_a, tab_b, tab_c], idx = 3\<rparr>)) 0)
              = [True, False, True] \<longrightarrow>
            tabs (connectionStore s') = [t1, t3]"
    by blast
  have r: "run_calls refuse_2
      (map connection (tabs \<lparr>tabs = [tab_a, tab_b, tab_c], idx = 3\<rparr>)) 0
      = ([True, False, True], 3)"
    using run_calls_refuse_2 by simp
  from m r have m': "onMount codec refuse_2 restart 0 = Inr (s', 3)" by simp
  from p r have "tabs (connectionStore s') = [tab_a, tab_c]" by simp
  with m' restart_hyps run_calls_refuse_2 show ?thesis by auto
qed

text \<open>
  Claim C10. When the connection blob parses to a saved store, hydration returns, and
  \<open>connectionStore.idx\<close> is then the saved \<open>idx\<close>, whatever tabs were dropped; the tabs are
  no more than the saved ones, and whenever the saved \<open>idx\<close> exceeds the number of
  restored tabs, \<open>getActiveConnection\<close> returns nothing.
\<close>

theorem hydration_keeps_cursor:
  assumes "store_get (store s) CONNECTIONS_TABS_KEY = Some str" "str \<noteq> []"
    "parse_conn js str = Some (Typed saved)"
  shows "\<exists>s' w'. onMount js connect s w = Inr (s', w') \<and>
         idx (connectionStore s') = idx saved \<and>
         length (tabs (connectionStore s')) \<le> length (tabs saved) \<and>
         (int (length (tabs (connectionStore s'))) < idx saved \<longrightarrow>
            getActiveConnection s' = None)"
proof -
  from onMount_parsed [OF assms, of connect w] obtain s' where
    m: "onMount js connect s w =
          Inr (s', snd (run_calls connect (map connection (tabs saved)) w))"
    and c: "connectionStore s' =
           saved\<lparr>tabs := map fst (filter snd
             (zip (tabs saved) (fst (run_calls connect (map connection (tabs saved)) w))))\<rparr>"
    by blast
  have i: "idx (connectionStore s') = idx saved" using c by simp
  have "length (filter snd (zip (tabs saved) bs)) \<le> length (tabs saved)" for bs
    by (rule order_trans [OF length_filter_le]) simp
  then have l: "length (tabs (connectionStore s')) \<le> length (tabs saved)" using c by simp
  have g: "getActiveConnection s' = None"
    if "int (length (tabs (connectionStore s'))) < idx saved"
    using that i by (simp add: getActiveConnection_def js_index_def)
  from m i l g show ?thesis by blast
qed

text \<open>
  The theorem on the saved session of three tabs with the cursor on the third: the
  second tab is dropped, the cursor is still 3, and no connection is active.
\<close>

theorem hydration_keeps_cursor_witness:
  "store_get (store restart) CONNECTIONS_TABS_KEY = Some ''abc'' \<and>
   parse_conn codec ''abc'' = Some (Typed \<lparr>tabs = [tab_a, tab_b, tab_c], idx = 3\<rparr>) \<and>
   (\<exists>s' w'. onMount codec refuse_2 restart 0 = Inr (s', w') \<and>
      tabs (connectionStore s') = [tab_a, tab_c] \<and>
      idx (connectionStore s') = 3 \<and>
      getActiveConnection s' = None)"
proof -
  from hydration_keeps_cursor [OF restart_hyps, of refuse_2 0]
  obtain s' w' where
    m: "onMount codec refuse_2 restart 0 = Inr (s', w')"
    and i: "idx (connectionStore s') = idx \<lparr>tabs = [tab_a, tab_b, tab_c], idx = 3\<rparr>"
    and g: "int (length (tabs (connectionStore s')))
              < idx \<lparr>tabs = [tab_a, tab_b, tab_c], idx = 3\<rparr> \<longrightarrow>
            getActiveConnection s' = None"
    by blast
  from m onMount_restart have t: "tabs (connectionStore s') = [tab_a, tab_c]" by auto
  with g have "getActiveConnection s' = None" by simp
  with m i t restart_hyps show ?thesis by auto
qed

section \<open>The debounced write\<close>

lemma elapse_short:
  "timer s = None \<or> timer s = Some (wait s) \<Longrightarrow> d < wait s \<Longrightarrow>
   elapse js d s = s\<lparr>timer := map_option (\<lambda>r. r - d) (timer s)\<rparr>"
  by (auto simp: elapse_def)

lemma mutating_apply_call:
  "mutating c s \<Longrightarrow>
   timer (apply_call c s) = Some (wait s) \<and> wait (apply_call c s) = wait s \<and>
   store (apply_call c s) = store s"
  by (cases c) (simp_all add: addTab_def removeTab_def updateStore_def Let_def)

lemma stores_apply_call:
  "connectionStore s = connectionStore u \<Longrightarrow> contentStore s = contentStore u \<Longrightarrow>
   connectionStore (apply_call c s) = connectionStore (apply_call c u) \<and>
   contentStore (apply_call c s) = contentStore (apply_call c u)"
  by (cases c) (simp_all add: addTab_def removeTab_def updateStore_def Let_def)

lemma stores_apply_calls:
  "connectionStore s = connectionStore u \<Longrightarrow> contentStore s = contentStore u \<Longrightarrow>
   connectionStore (apply_calls cs s) = connectionStore (apply_calls cs u) \<and>
   contentStore (apply_calls cs s) = contentStore (apply_calls cs u)"
proof (induction cs arbitrary: s u)
  case Nil
  then show ?case by simp
next
  case (Cons c cs)
  from stores_apply_call [OF Cons.prems, of c] Cons.IH [of "apply_call c s" "apply_call c u"]
  show ?case by simp
qed

text \<open>
  During a burst the timer never runs out: nothing is written, and the stores are those
  that the calls alone produce.
\<close>

lemma burst_in_window:
  "in_window js cs s \<Longrightarrow> timer s = None \<or> timer s = Some (wait s) \<Longrightarrow>
   store (burst js cs s) = store s \<and> wait (burst js cs s) = wait s \<and>
   (cs \<noteq> [] \<longrightarrow> timer (burst js cs s) = Some (wait s)) \<and>
   connectionStore (burst js cs s) = connectionStore (apply_calls (map snd cs) s) \<and>
   contentStore (burst js cs s) = contentStore (apply_calls (map snd cs) s)"
proof (induction cs arbitrary: s)
  case Nil
  then show ?case by simp
next
  case (Cons x cs)
  obtain d c where x: "x = (d, c)" by (cases x)
  let ?e = "elapse js d s"
  let ?s1 = "apply_call c ?e"
  from Cons.prems x have d: "d < wait s" and mu: "mutating c ?e" and win: "in_window js cs ?s1"
    by simp_all
  have e: "?e = s\<lparr>timer := map_option (\<lambda>r. r - d) (timer s)\<rparr>"
    using Cons.prems(2) d by (rule elapse_short)
  have e1: "wait ?e = wait s" "store ?e = store s"
    "connectionStore ?e = connectionStore s" "contentStore ?e = contentStore s"
    by (simp_all add: e)
  from mutating_apply_call [OF mu] e1
  have s1: "timer ?s1 = Some (wait s)" "wait ?s1 = wait s" "store ?s1 = store s" by simp_all
  have "timer ?s1 = None \<or> timer ?s1 = Some (wait ?s1)" using s1 by simp
  from Cons.IH [OF win this] s1
  have ih: "store (burst js cs ?s1) = store s" "wait (burst js cs ?s1) = wait s"
    "cs \<noteq> [] \<longrightarrow> timer (burst js cs ?s1) = Some (wait s)"
    "connectionStore (burst js cs ?s1) = connectionStore (apply_calls (map snd cs) ?s1)"
    "contentStore (burst js cs ?s1) = contentStore (apply_calls (map snd cs) ?s1)"
    by simp_all
  have t: "timer (burst js cs ?s1) = Some (wait s)"
    using ih(3) s1(1) by (cases cs) simp_all
  from stores_apply_call [OF e1(3) e1(4), of c]
  have "connectionStore ?s1 = connectionStore (apply_call c s)"
    "contentStore ?s1 = contentStore (apply_call c s)" by simp_all
  from stores_apply_calls [OF this, of "map snd cs"]
  have st: "connectionStore (apply_calls (map snd cs) ?s1) =
            connectionStore (apply_calls (map snd cs) (apply_call c s))"
    "contentStore (apply_calls (map snd cs) ?s1) =
            contentStore (apply_calls (map snd cs) (apply_call c s))" by simp_all
  show ?case using ih t st by (simp add: x)
qed

lemma three_calls_hyps:
  "timer fresh = None" "three_calls \<noteq> []" "in_window codec three_calls fresh"
  "wait fresh \<le> 3000"
  by (simp_all add: three_calls_def elapse_def addTab_def removeTab_def updateStore_def
      concrete_defs)

text \<open>
  Claim C9. Take a service with no write pending and a non-empty burst of calls of
  \<open>addTab\<close> and \<open>removeTab\<close>, each mutating and each less than \<open>wait\<close> milliseconds after
  the one before. The burst writes nothing. A quiet period of at least \<open>wait\<close>
  milliseconds after it performs one write (one \<open>save\<close>), which sets the two keys to the
  serialisations of the stores as they are after the last call; the stores are not
  changed by the write, no write is pending afterwards, and more time brings no other.
\<close>

theorem debounce_coalesces_burst:
  assumes "timer s = None" "cs \<noteq> []" "in_window js cs s" "wait s \<le> q"
  shows "store (burst js cs s) = store s \<and>
         saves (store (elapse js q (burst js cs s))) = Suc (saves (store s)) \<and>
         entries (store (elapse js q (burst js cs s))) =
           (entries (store s))
             (CONNECTIONS_TABS_KEY \<mapsto>
                stringify_conn js (connectionStore (apply_calls (map snd cs) s)),
              CONTENT_TABS_KEY \<mapsto>
                stringify_content js (contentStore (apply_calls (map snd cs) s))) \<and>
         connectionStore (elapse js q (burst js cs s)) =
           connectionStore (apply_calls (map snd cs) s) \<and>
         contentStore (elapse js q (burst js cs s)) =
           contentStore (apply_calls (map snd cs) s) \<and>
         timer (elapse js q (burst js cs s)) = None \<and>
         elapse js q' (elapse js q (burst js cs s)) = elapse js q (burst js cs s)"
proof -
  let ?b = "burst js cs s"
  from burst_in_window [OF assms(3)] assms(1,2)
  have b: "store ?b = store s" "wait ?b = wait s" "timer ?b = Some (wait s)"
    "connectionStore ?b = connectionStore (apply_calls (map snd cs) s)"
    "contentStore ?b = contentStore (apply_calls (map snd cs) s)"
    by simp_all
  have f: "elapse js q ?b = write_stores js (?b\<lparr>timer := None\<rparr>)"
    using b(3) assms(4) by (simp add: elapse_def)
  have n: "timer (elapse js q ?b) = None"
    by (simp add: f write_stores_def)
  have again: "elapse js q' (elapse js q ?b) = elapse js q ?b"
    using n by (simp add: elapse_def)
  show ?thesis
    using b n again
    by (simp add: f write_stores_def store_save_def store_set_def)
qed

text \<open>
  The theorem on a fresh service of the first variant (\<open>wait\<close> is 3000): \<open>tab_a\<close> added,
  \<open>tab_b\<close> added 500 ms later, \<open>tab_a\<close> removed 2999 ms after that, then 3000 ms of quiet.
  The one write holds the tab \<open>b\<close> alone.
\<close>

theorem debounce_coalesces_burst_witness:
  "timer fresh = None \<and> three_calls \<noteq> [] \<and> in_window codec three_calls fresh \<and>
   wait fresh \<le> 3000 \<and>
   store (burst codec three_calls fresh) = store fresh \<and>
   saves (store (elapse codec 3000 (burst codec three_calls fresh))) = 1 \<and>
   entries (store (elapse codec 3000 (burst codec three_calls fresh))) =
     [CONNECTIONS_TABS_KEY \<mapsto> ''b'', CONTENT_TABS_KEY \<mapsto> ''Query''] \<and>
   tabs (connectionStore (elapse codec 3000 (burst codec three_calls fresh))) = [tab_b]"
proof -
  have a: "connectionStore (apply_calls (map snd three_calls) fresh) = \<lparr>tabs = [tab_b], idx = 0\<rparr>"
    "contentStore (apply_calls (map snd three_calls) fresh) = \<lparr>tabs = [NEW_QUERY_TAB], idx = 0\<rparr>"
    by (simp_all add: three_calls_def addTab_def removeTab_def updateStore_def concrete_defs)
  have e: "store fresh = \<lparr>entries = Map.empty, saves = 0\<rparr>"
    by (simp add: concrete_defs)
  from debounce_coalesces_burst [OF three_calls_hyps]
  have "store (burst codec three_calls fresh) = store fresh \<and>
   saves (store (elapse codec 3000 (burst codec three_calls fresh))) = 1 \<and>
   entries (store (elapse codec 3000 (burst codec three_calls fresh))) =
     [CONNECTIONS_TABS_KEY \<mapsto> ''b'', CONTENT_TABS_KEY \<mapsto> ''Query''] \<and>
   tabs (connectionStore (elapse codec 3000 (burst codec three_calls fresh))) = [tab_b]"
    by (simp add: a e codec_def tab_b_def NEW_QUERY_TAB_def)
  with three_calls_hyps show ?thesis by blast
qed

end
